theory Spec2Isabelle
  imports Complex_Main
begin

section \<open>Data model\<close>

text \<open>
  A pandas DataFrame is an ordered sequence of named columns. A row value is a missing
  marker, a number or a text. Floating-point numbers are idealised as reals; a float that
  may be NaN is a \<open>real option\<close> with \<open>None\<close> for NaN. The dtype of a column is kept
  as its name, the way \<open>dtypes.astype(str)\<close> has it (\<open>''float64''\<close>, \<open>''int64''\<close>,
  \<open>''object''\<close>, \<open>''bool''\<close>, \<open>''category''\<close>).
\<close>

datatype cell = NA | Num real | Str string

record column =
  col_name :: string
  col_dtype :: string
  col_values :: "cell list"

type_synonym dataframe = "column list"

text \<open>One row of the table built by \<open>get_df_info\<close>.\<close>

record column_info =
  col_id :: int
  column_name :: string
  dtype :: string
  percentage_unique :: "real option"
  percentage_missing :: "real option"

datatype py_error = KeyError | IndexError | ZeroDivisionError | EOFError

text \<open>\<open>len(df)\<close>: the number of rows.\<close>

definition nrows :: "dataframe \<Rightarrow> nat" where
  "nrows df = (case df of [] \<Rightarrow> 0 | c # _ \<Rightarrow> length (col_values c))"

text \<open>\<open>list(df.columns)\<close>.\<close>

definition columns :: "dataframe \<Rightarrow> string list" where
  "columns df = map col_name df"

definition isnull :: "cell \<Rightarrow> bool" where
  "isnull v = (v = NA)"

text \<open>\<open>Series.dropna()\<close>.\<close>

definition dropna :: "cell list \<Rightarrow> cell list" where
  "dropna vs = filter (\<lambda>v. \<not> isnull v) vs"

text \<open>\<open>Series.nunique()\<close>: the number of distinct non-missing values.\<close>

definition nunique :: "cell list \<Rightarrow> nat" where
  "nunique vs = length (remdups (dropna vs))"

text \<open>\<open>Series.isnull().sum()\<close>.\<close>

definition null_count :: "cell list \<Rightarrow> nat" where
  "null_count vs = length (filter isnull vs)"

subsection \<open>Float helpers\<close>

text \<open>Rounding to the nearest integer, ties to the even neighbour, as numpy and Python round.\<close>

definition round_half_even :: "real \<Rightarrow> int" where
  "round_half_even x =
     (let f = \<lfloor>x\<rfloor>; d = x - of_int f
      in if d < 1 / 2 then f else if 1 / 2 < d then f + 1
         else if even f then f else f + 1)"

text \<open>\<open>round(x, 2)\<close>.\<close>

definition round2 :: "real \<Rightarrow> real" where
  "round2 x = of_int (round_half_even (x * 100)) / 100"

text \<open>
  \<open>(count / len(df)) * 100\<close> on a Series of counts, then \<open>.round(2)\<close>: with no rows the
  quotient is 0/0, which is NaN.
\<close>

definition percentage :: "nat \<Rightarrow> nat \<Rightarrow> real option" where
  "percentage cnt n = (if n = 0 then None else Some (round2 (real cnt / real n * 100)))"

text \<open>\<open>x > y\<close> on floats: False as soon as one side is NaN.\<close>

definition fgt :: "real option \<Rightarrow> real option \<Rightarrow> bool" where
  "fgt a b = (case a of None \<Rightarrow> False | Some x \<Rightarrow> (case b of None \<Rightarrow> False | Some y \<Rightarrow> y < x))"


section \<open>Column registry: \<open>get_df_info\<close>\<close>

definition get_df_info :: "dataframe \<Rightarrow> column_info list" where
  "get_df_info df =
     map (\<lambda>(i, c).
            \<lparr>col_id = i,
             column_name = col_name c,
             dtype = col_dtype c,
             percentage_unique = percentage (nunique (col_values c)) (nrows df),
             percentage_missing = percentage (null_count (col_values c)) (nrows df)\<rparr>)
         (zip [1..int (length df)] df)"

section \<open>External statistics\<close>

text \<open>
  The statistical routines of pandas are outside the repository. They are taken as
  parameters, so that every theorem holds whatever they compute. A result that may be NaN
  is a \<open>real option\<close>; \<open>to_numeric_fn\<close> returns \<open>None\<close> where
  \<open>pd.to_numeric(..., errors='raise')\<close> raises, and otherwise the new dtype name and
  the converted values; \<open>mode_fn\<close> returns the modes (\<open>Series.mode()\<close>), none when
  the column has no value. The other routines are taken to return on every column: a
  column of a type on which pandas would raise has no branch in the model.
\<close>

record stats =
  mean_fn :: "cell list \<Rightarrow> real option"
  median_fn :: "cell list \<Rightarrow> real option"
  mode_fn :: "cell list \<Rightarrow> cell list"
  skew_fn :: "cell list \<Rightarrow> real option"
  quantile_fn :: "real \<Rightarrow> cell list \<Rightarrow> real option"
  corr_fn :: "cell list \<Rightarrow> cell list \<Rightarrow> real option"
  to_numeric_fn :: "cell list \<Rightarrow> (string \<times> cell list) option"

section \<open>Dataframe operations\<close>

text \<open>\<open>df[col]\<close>: the column of that name, \<open>None\<close> where pandas raises KeyError.\<close>

definition get_col :: "string \<Rightarrow> dataframe \<Rightarrow> column option" where
  "get_col name df = find (\<lambda>c. col_name c = name) df"

text \<open>\<open>df[col] = new_values\<close> on an existing column, with the dtype the values carry.\<close>

definition set_col :: "string \<Rightarrow> string \<Rightarrow> cell list \<Rightarrow> dataframe \<Rightarrow> dataframe" where
  "set_col name d vs df =
     map (\<lambda>c. if col_name c = name then c\<lparr>col_dtype := d, col_values := vs\<rparr> else c) df"

text \<open>\<open>df.drop(columns=names)\<close>: KeyError when a name is not a column.\<close>

definition drop_cols :: "string list \<Rightarrow> dataframe \<Rightarrow> py_error + dataframe" where
  "drop_cols names df =
     (if list_ex (\<lambda>n. n \<notin> set (columns df)) names then Inl KeyError
      else Inr (filter (\<lambda>c. col_name c \<notin> set names) df))"

text \<open>\<open>Series.fillna(val)\<close> with a float: a NaN value fills nothing.\<close>

definition fillna :: "real option \<Rightarrow> cell list \<Rightarrow> cell list" where
  "fillna val vs = (case val of None \<Rightarrow> vs | Some x \<Rightarrow> map (\<lambda>v. if isnull v then Num x else v) vs)"

text \<open>\<open>Series.fillna(mode_val.iloc[0])\<close>.\<close>

definition fillna_cell :: "cell \<Rightarrow> cell list \<Rightarrow> cell list" where
  "fillna_cell w vs = map (\<lambda>v. if isnull v then w else v) vs"


text \<open>A dict built by successive assignments: the last assignment to a key wins.\<close>

definition dict_of :: "('k \<times> 'v) list \<Rightarrow> ('k \<rightharpoonup> 'v)" where
  "dict_of kvs = map_of (rev kvs)"

section \<open>Missing values: suggestions\<close>

text \<open>
  \<open>is_categorical = is_object_dtype(dtype) or isinstance(dtype, pd.CategoricalDtype)\<close>
  of \<open>missing_values.py\<close>, on the dtype of a row of \<open>get_df_info\<close>. These dtypes
  are names (strings): \<open>is_object_dtype\<close> holds of the name \<open>object\<close>, and a string is
  never an instance of \<open>pd.CategoricalDtype\<close>.
\<close>

definition is_object_dtype :: "string \<Rightarrow> bool" where
  "is_object_dtype d = (d = ''object'')"

definition isinstance_CategoricalDtype :: "string \<Rightarrow> bool" where
  "isinstance_CategoricalDtype d = False"

definition is_categorical :: "string \<Rightarrow> bool" where
  "is_categorical d = (is_object_dtype d \<or> isinstance_CategoricalDtype d)"

text \<open>\<open>str(dtype) in ['object', 'category']\<close> of \<open>backend.py\<close>.\<close>

definition is_cat :: "string \<Rightarrow> bool" where
  "is_cat d = (d \<in> set [''object'', ''category''])"










section \<open>Missing values: applying a plan\<close>

text \<open>
  One line appended to the log of a step. Each constructor stands for one format string of
  the source, with the column name it is filled with:
  \<open>LogToNumeric c\<close> for \<open>df['c'] = pd.to_numeric(df['c'], errors='raise')\<close>,
  \<open>LogFillMean c\<close> for \<open>df['c'].fillna(df['c'].mean(), inplace=True)\<close>, likewise the
  median and the mode, and \<open>LogDropCol c\<close> for \<open>df.drop(columns=['c'], inplace=True)\<close>.
\<close>

datatype log_line =
  LogToNumeric string | LogFillMean string | LogFillMedian string | LogFillMode string
| LogDropCol string | LogDropCols "string list" | LogCap string | LogRemoveRows string

text \<open>A plan: the items of a dict from action names to ids, in iteration order.\<close>

type_synonym plan = "(string \<times> int list) list"

type_synonym api_state = "dataframe \<times> log_line list"

text \<open>\<open>1 <= cid <= len(cols)\<close>.\<close>

definition in_range :: "int \<Rightarrow> 'a list \<Rightarrow> bool" where
  "in_range cid cols = (1 \<le> cid \<and> cid \<le> int (length cols))"

text \<open>
  \<open>api_missing_apply\<close> (\<open>backend.py\<close>), the part of the loop body after the coercion:
  the \<open>if action == 'mean' ... elif action == 'drop_col'\<close> chain on column \<open>col\<close>.
\<close>

definition api_missing_fill :: "stats \<Rightarrow> string \<Rightarrow> string \<Rightarrow> api_state \<Rightarrow> py_error + api_state" where
  "api_missing_fill st action col s =
     (case s of (df, logs) \<Rightarrow>
        if action = ''mean'' then
          (case get_col col df of None \<Rightarrow> Inl KeyError
           | Some c \<Rightarrow>
               Inr (set_col col (col_dtype c) (fillna (mean_fn st (col_values c)) (col_values c)) df,
                    logs @ [LogFillMean col]))
        else if action = ''median'' then
          (case get_col col df of None \<Rightarrow> Inl KeyError
           | Some c \<Rightarrow>
               Inr (set_col col (col_dtype c) (fillna (median_fn st (col_values c)) (col_values c)) df,
                    logs @ [LogFillMedian col]))
        else if action = ''mode'' then
          (case get_col col df of None \<Rightarrow> Inl KeyError
           | Some c \<Rightarrow>
               (case mode_fn st (col_values c) of
                  [] \<Rightarrow> Inr (df, logs)
                | w # _ \<Rightarrow>
                    Inr (set_col col (col_dtype c) (fillna_cell w (col_values c)) df,
                         logs @ [LogFillMode col])))
        else if action = ''drop_col'' then
          (case drop_cols [col] df of Inl e \<Rightarrow> Inl e
           | Inr df' \<Rightarrow> Inr (df', logs @ [LogDropCol col]))
        else Inr (df, logs))"

text \<open>
  The whole loop body for one id in range, \<open>col = cols[cid-1]\<close>: \<open>df[col]\<close> is read
  first (KeyError when the column is gone); a mean or median on a categorical column
  tries \<open>pd.to_numeric\<close>, and \<open>continue\<close>s when it raises.
\<close>

definition api_missing_step :: "stats \<Rightarrow> string \<Rightarrow> string \<Rightarrow> api_state \<Rightarrow> py_error + api_state" where
  "api_missing_step st action col s =
     (case s of (df, logs) \<Rightarrow>
        (case get_col col df of None \<Rightarrow> Inl KeyError
         | Some c \<Rightarrow>
             if action \<in> set [''mean'', ''median''] \<and> is_cat (col_dtype c) then
               (case to_numeric_fn st (col_values c) of
                  None \<Rightarrow> Inr (df, logs)
                | Some (d, vs) \<Rightarrow>
                    api_missing_fill st action col (set_col col d vs df, logs @ [LogToNumeric col]))
             else api_missing_fill st action col (df, logs)))"

fun api_missing_ids ::
  "stats \<Rightarrow> string list \<Rightarrow> string \<Rightarrow> int list \<Rightarrow> api_state \<Rightarrow> py_error + api_state" where
  "api_missing_ids st cols action [] s = Inr s"
| "api_missing_ids st cols action (cid # ids) s =
     (if \<not> in_range cid cols then api_missing_ids st cols action ids s
      else (case api_missing_step st action (cols ! nat (cid - 1)) s of
              Inl e \<Rightarrow> Inl e
            | Inr s' \<Rightarrow> api_missing_ids st cols action ids s'))"

fun api_missing_plan :: "stats \<Rightarrow> string list \<Rightarrow> plan \<Rightarrow> api_state \<Rightarrow> py_error + api_state" where
  "api_missing_plan st cols [] s = Inr s"
| "api_missing_plan st cols ((action, ids) # rest) s =
     (case api_missing_ids st cols action ids s of
        Inl e \<Rightarrow> Inl e
      | Inr s' \<Rightarrow> api_missing_plan st cols rest s')"

text \<open>
  \<open>api_missing_apply\<close>: \<open>cols = list(df.columns)\<close> is taken once, before the loop. The
  result is the dataframe that is saved and the lines logged; the response lists
  \<open>get_df_info\<close> of that dataframe.
\<close>

definition api_missing_apply :: "stats \<Rightarrow> dataframe \<Rightarrow> plan \<Rightarrow> py_error + api_state" where
  "api_missing_apply st df p = api_missing_plan st (columns df) p (df, [])"

subsection \<open>The interactive flow: \<open>apply_actions\<close> in \<open>handle_missing_values\<close>\<close>

text \<open>
  The state \<open>apply_actions\<close> works on: the dataframe and the info table it mutates, the
  lines of \<open>log_code\<close>, and the lines still to be read from standard input.
\<close>

record cli_state =
  current_df :: dataframe
  current_info :: "column_info list"
  log_code :: "log_line list"
  stdin :: "string list"

definition is_space :: "char \<Rightarrow> bool" where
  "is_space c = ((of_char c :: nat) \<in> set [9, 10, 11, 12, 13, 28, 29, 30, 31, 32])"

text \<open>\<open>str.strip()\<close> and \<open>str.lower()\<close> on ASCII text.\<close>

definition strip :: "string \<Rightarrow> string" where
  "strip s = rev (dropWhile is_space (rev (dropWhile is_space s)))"

definition lower :: "string \<Rightarrow> string" where
  "lower s =
     map (\<lambda>c. case map_of (zip ''ABCDEFGHIJKLMNOPQRSTUVWXYZ'' ''abcdefghijklmnopqrstuvwxyz'') c of
                None \<Rightarrow> c | Some l \<Rightarrow> l) s"

text \<open>
  The guarded fills of \<open>apply_actions\<close>: the \<open>if action == "mean" ... elif action ==
  "drop_col"\<close> chain for the column \<open>col_name\<close> of id \<open>cid\<close>. A mean or median that is
  NaN and an empty mode fill nothing and log nothing.
\<close>

definition cli_fill :: "stats \<Rightarrow> string \<Rightarrow> string \<Rightarrow> int \<Rightarrow> cli_state \<Rightarrow> py_error + cli_state" where
  "cli_fill st action name cid s =
     (if action = ''mean'' then
        (case get_col name (current_df s) of None \<Rightarrow> Inl KeyError
         | Some c \<Rightarrow>
             (case mean_fn st (col_values c) of
                None \<Rightarrow> Inr s
              | Some val \<Rightarrow>
                  Inr (s\<lparr>current_df := set_col name (col_dtype c) (fillna (Some val) (col_values c)) (current_df s),
                         log_code := log_code s @ [LogFillMean name]\<rparr>)))
      else if action = ''median'' then
        (case get_col name (current_df s) of None \<Rightarrow> Inl KeyError
         | Some c \<Rightarrow>
             (case median_fn st (col_values c) of
                None \<Rightarrow> Inr s
              | Some val \<Rightarrow>
                  Inr (s\<lparr>current_df := set_col name (col_dtype c) (fillna (Some val) (col_values c)) (current_df s),
                         log_code := log_code s @ [LogFillMedian name]\<rparr>)))
      else if action = ''mode'' then
        (case get_col name (current_df s) of None \<Rightarrow> Inl KeyError
         | Some c \<Rightarrow>
             (case mode_fn st (col_values c) of
                [] \<Rightarrow> Inr s
              | w # _ \<Rightarrow>
                  Inr (s\<lparr>current_df := set_col name (col_dtype c) (fillna_cell w (col_values c)) (current_df s),
                         log_code := log_code s @ [LogFillMode name]\<rparr>)))
      else if action = ''drop_col'' then
        (case drop_cols [name] (current_df s) of Inl e \<Rightarrow> Inl e
         | Inr df' \<Rightarrow>
             Inr (s\<lparr>current_df := df',
                    current_info := filter (\<lambda>r. col_id r \<noteq> cid) (current_info s),
                    log_code := log_code s @ [LogDropCol name]\<rparr>))
      else Inr s)"

text \<open>
  The body of the inner loop of \<open>apply_actions\<close> for one id. The name and dtype come from
  the first row of \<open>current_info\<close> with that id (\<open>.iloc[0]\<close>: IndexError when there is
  none). A mean or median on a categorical column asks \<open>Attempt to convert to numeric?
  (y/n)\<close>; only the answer \<open>y\<close> tries \<open>pd.to_numeric\<close>, inside a \<open>try\<close> whose bare
  \<open>except\<close> skips the column on any error; any other answer skips the column too.
\<close>

definition cli_apply_one :: "stats \<Rightarrow> string \<Rightarrow> int \<Rightarrow> cli_state \<Rightarrow> py_error + cli_state" where
  "cli_apply_one st action cid s =
     (case find (\<lambda>r. col_id r = cid) (current_info s) of
        None \<Rightarrow> Inl IndexError
      | Some row \<Rightarrow>
          if action \<in> set [''mean'', ''median''] \<and> is_categorical (dtype row) then
            (case stdin s of
               [] \<Rightarrow> Inl EOFError
             | answer # pending \<Rightarrow>
                 if lower (strip answer) = ''y'' then
                   (case get_col (column_name row) (current_df s) of
                      None \<Rightarrow> Inr (s\<lparr>stdin := pending\<rparr>)
                    | Some c \<Rightarrow>
                        (case to_numeric_fn st (col_values c) of
                           None \<Rightarrow> Inr (s\<lparr>stdin := pending\<rparr>)
                         | Some (d, vs) \<Rightarrow>
                             cli_fill st action (column_name row) cid
                               (s\<lparr>current_df := set_col (column_name row) d vs (current_df s),
                                  current_info :=
                                    map (\<lambda>r. if column_name r = column_name row then r\<lparr>dtype := d\<rparr> else r)
                                      (current_info s),
                                  log_code := log_code s @ [LogToNumeric (column_name row)],
                                  stdin := pending\<rparr>)))
                 else Inr (s\<lparr>stdin := pending\<rparr>))
          else cli_fill st action (column_name row) cid s)"

fun cli_apply_ids :: "stats \<Rightarrow> string \<Rightarrow> int list \<Rightarrow> cli_state \<Rightarrow> py_error + cli_state" where
  "cli_apply_ids st action [] s = Inr s"
| "cli_apply_ids st action (cid # ids) s =
     (case cli_apply_one st action cid s of
        Inl e \<Rightarrow> Inl e
      | Inr s' \<Rightarrow> cli_apply_ids st action ids s')"

text \<open>
  \<open>apply_actions(plan, target_ids, current_df, current_info)\<close>: for each action of the
  plan, the ids of the plan that are in \<open>target_ids\<close>.
\<close>

fun apply_actions :: "stats \<Rightarrow> plan \<Rightarrow> int list \<Rightarrow> cli_state \<Rightarrow> py_error + cli_state" where
  "apply_actions st [] target_ids s = Inr s"
| "apply_actions st ((action, col_ids) # rest) target_ids s =
     (case cli_apply_ids st action (filter (\<lambda>cid. cid \<in> set target_ids) col_ids) s of
        Inl e \<Rightarrow> Inl e
      | Inr s' \<Rightarrow> apply_actions st rest target_ids s')"

subsection \<open>Coverage of a plan\<close>

text \<open>
  A Python set of ids is the list of its elements in iteration order.
  \<open>covered_ids\<close> is the union of the id sets of the plan, \<open>uncovered_ids\<close> the
  difference \<open>all_missing_ids - covered_ids\<close>.
\<close>

definition covered_ids :: "plan \<Rightarrow> int list" where
  "covered_ids user_plan = remdups (concat (map snd user_plan))"

definition uncovered_ids :: "int list \<Rightarrow> plan \<Rightarrow> int list" where
  "uncovered_ids all_ids user_plan = filter (\<lambda>i. i \<notin> set (covered_ids user_plan)) all_ids"

text \<open>\<open>temp_plan.setdefault(act, set()).add(col_id)\<close>.\<close>

fun setdefault_add :: "string \<Rightarrow> int \<Rightarrow> plan \<Rightarrow> plan" where
  "setdefault_add act cid [] = [(act, [cid])]"
| "setdefault_add act cid ((a, ids) # rest) =
     (if a = act then (a, if cid \<in> set ids then ids else ids @ [cid]) # rest
      else (a, ids) # setdefault_add act cid rest)"

text \<open>
  Choice 2 of \<open>handle_missing_values\<close>, "apply my original global suggestions": each
  uncovered id goes under \<open>global_suggestion.get(col_id, "median")\<close>.
\<close>

definition temp_plan :: "(int \<rightharpoonup> string) \<Rightarrow> int list \<Rightarrow> plan" where
  "temp_plan global_suggestion uncovered =
     fold (\<lambda>cid p. setdefault_add (case global_suggestion cid of None \<Rightarrow> ''median'' | Some act \<Rightarrow> act) cid p)
       uncovered []"

text \<open>
  \<open>assigned p a cid\<close>: the plan \<open>p\<close> lists the id \<open>cid\<close> under the action \<open>a\<close>.
\<close>

definition assigned :: "plan \<Rightarrow> string \<Rightarrow> int \<Rightarrow> bool" where
  "assigned p a cid = list_ex (\<lambda>(b, ids). b = a \<and> cid \<in> set ids) p"

section \<open>Dropping columns by id\<close>


section \<open>Outliers\<close>

text \<open>\<open>df.select_dtypes(include=["float64", "int64"]).columns\<close>.\<close>

definition numeric_cols :: "dataframe \<Rightarrow> column list" where
  "numeric_cols df = filter (\<lambda>c. col_dtype c \<in> set [''float64'', ''int64'']) df"








text \<open>One entry of \<open>outlier_summary\<close> in \<open>detect_and_handle_outliers\<close>.\<close>

record outlier_row =
  out_column_name :: string
  outliers_count :: nat
  outliers_pct :: real
  lower_bound :: "real option"
  upper_bound :: "real option"









subsection \<open>Applying an outlier plan\<close>

text \<open>
  \<open>Series.clip(lower, upper)\<close>: a NaN bound clips nothing on its side. The steps below
  keep the dtype name of a clipped column (pandas may widen an integer column to
  \<open>float64\<close>).
\<close>

definition clip_cell :: "real option \<Rightarrow> real option \<Rightarrow> cell \<Rightarrow> cell" where
  "clip_cell lo hi v =
     (case v of
        Num x \<Rightarrow>
          (let y = (case lo of None \<Rightarrow> x | Some l \<Rightarrow> max l x)
           in Num (case hi of None \<Rightarrow> y | Some u \<Rightarrow> min u y))
      | _ \<Rightarrow> v)"

definition clip :: "real option \<Rightarrow> real option \<Rightarrow> cell list \<Rightarrow> cell list" where
  "clip lo hi vs = map (clip_cell lo hi) vs"

text \<open>\<open>(df[col] >= lower) & (df[col] <= upper)\<close>: the rows that are kept.\<close>

definition in_bounds :: "real option \<Rightarrow> real option \<Rightarrow> cell \<Rightarrow> bool" where
  "in_bounds lo hi v =
     (case v of Num x \<Rightarrow> (case lo of None \<Rightarrow> False | Some l \<Rightarrow> l \<le> x)
                        \<and> (case hi of None \<Rightarrow> False | Some u \<Rightarrow> x \<le> u)
      | _ \<Rightarrow> False)"

text \<open>\<open>df[mask]\<close>: the rows of every column at the positions where the mask holds.\<close>

definition select_rows :: "bool list \<Rightarrow> dataframe \<Rightarrow> dataframe" where
  "select_rows keep df =
     map (\<lambda>c. c\<lparr>col_values := map snd (filter fst (zip keep (col_values c)))\<rparr>) df"

text \<open>
  One id in \<open>apply_outlier_logic\<close> (\<open>outliers.py\<close>). The name comes from \<open>updated_info\<close>
  and the bounds from \<open>outlier_cols_info\<close>, the table of the diagnostic (\<open>.iloc[0]\<close>:
  IndexError without a row of that id); the dataframe is only read for the column.
\<close>

definition apply_outlier_one ::
  "column_info list \<Rightarrow> (int \<times> outlier_row) list \<Rightarrow> string \<Rightarrow> int \<Rightarrow> api_state \<Rightarrow> py_error + api_state" where
  "apply_outlier_one updated_info info action cid s =
     (case s of (cur_df, logs) \<Rightarrow>
        (case find (\<lambda>r. col_id r = cid) updated_info of
           None \<Rightarrow> Inl IndexError
         | Some row \<Rightarrow>
             (case find (\<lambda>r. fst r = cid) info of
                None \<Rightarrow> Inl IndexError
              | Some (i, bounds) \<Rightarrow>
                  if action = ''cap'' then
                    (case get_col (column_name row) cur_df of
                       None \<Rightarrow> Inl KeyError
                     | Some c \<Rightarrow>
                         Inr (set_col (column_name row) (col_dtype c)
                                (clip (lower_bound bounds) (upper_bound bounds) (col_values c)) cur_df,
                              logs @ [LogCap (column_name row)]))
                  else if action = ''remove_rows'' then
                    (case get_col (column_name row) cur_df of
                       None \<Rightarrow> Inl KeyError
                     | Some c \<Rightarrow>
                         Inr (select_rows (map (in_bounds (lower_bound bounds) (upper_bound bounds)) (col_values c))
                                cur_df,
                              logs @ [LogRemoveRows (column_name row)]))
                  else Inr (cur_df, logs))))"

fun apply_outlier_ids ::
  "column_info list \<Rightarrow> (int \<times> outlier_row) list \<Rightarrow> string \<Rightarrow> int list \<Rightarrow> api_state \<Rightarrow> py_error + api_state" where
  "apply_outlier_ids updated_info info action [] s = Inr s"
| "apply_outlier_ids updated_info info action (cid # ids) s =
     (case apply_outlier_one updated_info info action cid s of
        Inl e \<Rightarrow> Inl e
      | Inr s' \<Rightarrow> apply_outlier_ids updated_info info action ids s')"

fun apply_outlier_logic ::
  "column_info list \<Rightarrow> (int \<times> outlier_row) list \<Rightarrow> plan \<Rightarrow> int list \<Rightarrow> api_state \<Rightarrow> py_error + api_state" where
  "apply_outlier_logic updated_info info [] target_ids s = Inr s"
| "apply_outlier_logic updated_info info ((action, col_ids) # rest) target_ids s =
     (case apply_outlier_ids updated_info info action (filter (\<lambda>cid. cid \<in> set target_ids) col_ids) s of
        Inl e \<Rightarrow> Inl e
      | Inr s' \<Rightarrow> apply_outlier_logic updated_info info rest target_ids s')"






section \<open>Correlation\<close>

text \<open>
  \<open>df[numeric_cols].corr().abs()\<close>: the entry in row \<open>i\<close> and column \<open>j\<close> is the absolute
  correlation of the numeric columns \<open>i\<close> and \<open>j\<close>, NaN where it is undefined.
\<close>

definition corr_matrix :: "stats \<Rightarrow> column list \<Rightarrow> real option list list" where
  "corr_matrix st nums =
     map (\<lambda>ci. map (\<lambda>cj. map_option abs (corr_fn st (col_values ci) (col_values cj))) nums) nums"

text \<open>
  \<open>corr_matrix.where(np.triu(np.ones(corr_matrix.shape), k=1).astype(bool))\<close>: the entries
  strictly above the diagonal (column index greater than row index) are kept, the others
  become NaN.
\<close>

definition upper_triangle :: "real option list list \<Rightarrow> real option list list" where
  "upper_triangle m =
     map (\<lambda>i. map (\<lambda>j. if i < j then m ! i ! j else None) [0..<length (m ! i)]) [0..<length m]"

text \<open>\<open>upper[col]\<close> for the column at position \<open>j\<close>: its entries over all rows.\<close>

definition upper_column :: "real option list list \<Rightarrow> nat \<Rightarrow> real option list" where
  "upper_column u j = map (\<lambda>row. row ! j) u"

text \<open>
  The columns \<open>col\<close> of \<open>upper\<close> with some entry \<open>upper[col] > threshold\<close>, in column
  order: \<open>high_corr_cols\<close> of \<open>api_corr\<close> (\<open>backend.py\<close>) and, as a set, of
  \<open>handle_high_correlation\<close> (\<open>correlation_utils.py\<close>).
\<close>

definition high_corr_cols :: "stats \<Rightarrow> real \<Rightarrow> dataframe \<Rightarrow> string list" where
  "high_corr_cols st threshold df =
     (let nums = numeric_cols df;
          u = upper_triangle (corr_matrix st nums)
      in map (\<lambda>(j, c). col_name c)
           (filter (\<lambda>(j, c). list_ex (\<lambda>v. fgt v (Some threshold)) (upper_column u j))
              (zip [0..<length nums] nums)))"

text \<open>
  \<open>api_corr\<close> without \<open>auto_drop\<close> and without a plan: \<open>None\<close> stands for the answer
  "not enough numeric columns", otherwise the columns reported as \<open>columns_to_drop\<close>.
\<close>

definition api_corr_detect :: "stats \<Rightarrow> real \<Rightarrow> dataframe \<Rightarrow> string list option" where
  "api_corr_detect st threshold df =
     (if length (numeric_cols df) < 2 then None else Some (high_corr_cols st threshold df))"

text \<open>
  \<open>global_suggestion\<close> of \<open>handle_high_correlation\<close>: \<open>drop\<close> for the id of every row
  of \<open>df_info\<close> whose column is in \<open>high_corr_cols\<close>; empty when the function returns
  early for lack of numeric columns.
\<close>

definition correlation_suggestion ::
  "stats \<Rightarrow> real \<Rightarrow> dataframe \<Rightarrow> column_info list \<Rightarrow> (int \<rightharpoonup> string)" where
  "correlation_suggestion st threshold df df_info =
     (if length (numeric_cols df) < 2 then Map.empty
      else dict_of (map (\<lambda>row. (col_id row, ''drop''))
                     (filter (\<lambda>row. column_name row \<in> set (high_corr_cols st threshold df)) df_info)))"

section \<open>A concrete instance of the statistics, and example dataframes\<close>

text \<open>
  To evaluate the model on concrete inputs, the statistics are instantiated: the mean and
  the quantiles by linear interpolation (the default of pandas), the modes as the most
  frequent values in order of first occurrence (the examples have one mode), the skew as
  NaN (no example depends on it), the correlation of a column with an identical column as
  1, and \<open>to_numeric\<close> on texts of decimal digits.
\<close>

definition nums_of :: "cell list \<Rightarrow> real list" where
  "nums_of vs = concat (map (\<lambda>v. case v of Num x \<Rightarrow> [x] | _ \<Rightarrow> []) vs)"

definition mean_cells :: "cell list \<Rightarrow> real option" where
  "mean_cells vs =
     (let xs = nums_of vs in if xs = [] then None else Some (sum_list xs / real (length xs)))"

definition quantile_linear :: "real \<Rightarrow> cell list \<Rightarrow> real option" where
  "quantile_linear q vs =
     (let xs = sort (nums_of vs); n = length xs
      in if n = 0 then None
         else let pos = q * real (n - 1); lo = nat \<lfloor>pos\<rfloor>; hi = min (lo + 1) (n - 1)
              in Some (xs ! lo + (pos - real lo) * (xs ! hi - xs ! lo)))"

definition mode_cells :: "cell list \<Rightarrow> cell list" where
  "mode_cells vs =
     (let xs = dropna vs; top = Max (set (0 # map (count_list xs) xs))
      in filter (\<lambda>v. count_list xs v = top) (remdups xs))"

fun parse_digits :: "nat \<Rightarrow> string \<Rightarrow> nat option" where
  "parse_digits acc [] = Some acc"
| "parse_digits acc (c # cs) =
     (let n = (of_char c :: nat)
      in if 48 \<le> n \<and> n \<le> 57 then parse_digits (10 * acc + (n - 48)) cs else None)"

definition parse_cell :: "cell \<Rightarrow> cell option" where
  "parse_cell v =
     (case v of NA \<Rightarrow> Some NA | Num x \<Rightarrow> Some (Num x)
      | Str s \<Rightarrow> (if s = [] then None else map_option (\<lambda>n. Num (real n)) (parse_digits 0 s)))"

definition to_numeric_cells :: "cell list \<Rightarrow> (string \<times> cell list) option" where
  "to_numeric_cells vs =
     (if list_all (\<lambda>v. parse_cell v \<noteq> None) vs
      then Some (if list_ex isnull vs then ''float64'' else ''int64'', map (\<lambda>v. the (parse_cell v)) vs)
      else None)"

definition example_stats :: stats where
  "example_stats =
     \<lparr>mean_fn = mean_cells, median_fn = quantile_linear (1 / 2), mode_fn = mode_cells,
      skew_fn = (\<lambda>vs. None), quantile_fn = quantile_linear,
      corr_fn = (\<lambda>xs ys. if xs = ys then Some 1 else None),
      to_numeric_fn = to_numeric_cells\<rparr>"


text \<open>
  Example dataframes: three columns with a missing first row; a text column that does not
  convert to numbers beside a numeric column; a text column of digits; and a column with
  no value at all beside a numeric column.
\<close>

definition df_abc :: dataframe where
  "df_abc =
     [\<lparr>col_name = ''a'', col_dtype = ''float64'', col_values = [NA, Num 1, Num 3]\<rparr>,
      \<lparr>col_name = ''b'', col_dtype = ''float64'', col_values = [NA, Num 2, Num 4]\<rparr>,
      \<lparr>col_name = ''c'', col_dtype = ''float64'', col_values = [NA, Num 5, Num 7]\<rparr>]"

definition df_text :: dataframe where
  "df_text =
     [\<lparr>col_name = ''t'', col_dtype = ''object'', col_values = [Str ''x'', NA, Str ''7'']\<rparr>,
      \<lparr>col_name = ''u'', col_dtype = ''float64'', col_values = [NA, Num 2, Num 4]\<rparr>]"

definition df_digits :: dataframe where
  "df_digits =
     [\<lparr>col_name = ''n'', col_dtype = ''object'', col_values = [Str ''1'', NA, Str ''3'']\<rparr>]"

definition df_allna :: dataframe where
  "df_allna =
     [\<lparr>col_name = ''e'', col_dtype = ''float64'', col_values = [NA, NA]\<rparr>,
      \<lparr>col_name = ''f'', col_dtype = ''float64'', col_values = [NA, Num 4]\<rparr>]"




text \<open>
  Two numeric columns that are exact duplicates.
\<close>

definition df_dup :: dataframe where
  "df_dup =
     [\<lparr>col_name = ''a'', col_dtype = ''float64'', col_values = [Num 1, Num 2, Num 3]\<rparr>,
      \<lparr>col_name = ''b'', col_dtype = ''float64'', col_values = [Num 1, Num 2, Num 3]\<rparr>]"

section \<open>Properties of the registry\<close>

lemma length_upto_columns: "length [1..int n] = n"
  by simp

lemma get_df_info_length: "length (get_df_info df) = length df"
  by (simp add: get_df_info_def)

lemma map_fst_zip_fun: "length xs = length ys \<Longrightarrow> map (\<lambda>p. f (fst p)) (zip xs ys) = map f xs"
  by (induction xs ys rule: list_induct2) simp_all

lemma map_snd_zip_fun: "length xs = length ys \<Longrightarrow> map (\<lambda>p. f (snd p)) (zip xs ys) = map f ys"
  by (induction xs ys rule: list_induct2) simp_all

lemma get_df_info_ids: "map col_id (get_df_info df) = [1..int (length df)]"
  using map_fst_zip_fun [of "[1..int (length df)]" df "\<lambda>i. i"]
  by (simp add: get_df_info_def case_prod_unfold comp_def)

lemma get_df_info_names: "map column_name (get_df_info df) = columns df"
  using map_snd_zip_fun [of "[1..int (length df)]" df col_name]
  by (simp add: get_df_info_def case_prod_unfold comp_def columns_def)

lemma get_df_info_distinct_ids: "distinct (map col_id (get_df_info df))"
  by (simp add: get_df_info_ids)

text \<open>
  C3. The descriptors computed by \<open>get_df_info\<close> from any dataframe (in particular the
  one left by a mutation) carry the ids 1, 2, ..., N in this order, N being the current
  number of columns, and the i-th descriptor names the i-th column: the ids have no gap
  and no repeat.
\<close>

theorem get_df_info_ids_contiguous:
  "map col_id (get_df_info df) = [1..int (length (columns df))]
   \<and> map column_name (get_df_info df) = columns df
   \<and> distinct (map col_id (get_df_info df))
   \<and> set (map col_id (get_df_info df)) = {1..int (length (columns df))}"
proof -
  have len: "length (columns df) = length df"
    by (simp add: columns_def)
  have ids: "map col_id (get_df_info df) = [1..int (length df)]"
    by (rule get_df_info_ids)
  have "set (map col_id (get_df_info df)) = {1..int (length df)}"
    unfolding ids by simp
  with ids get_df_info_names [of df] get_df_info_distinct_ids [of df] len
  show ?thesis by simp
qed

section \<open>Missing-value suggestions\<close>



lemma dict_of_distinct:
  "distinct (map fst kvs) \<Longrightarrow> dict_of kvs = map_of kvs"
proof -
  assume d: "distinct (map fst kvs)"
  then have "distinct (map fst (rev kvs))"
    by (simp flip: rev_map)
  with d show ?thesis
    unfolding dict_of_def using map_of_inject_set [of "rev kvs" kvs] by simp
qed



lemma get_df_info_nth:
  assumes "i < length df"
  shows "get_df_info df ! i =
           \<lparr>col_id = int i + 1, column_name = col_name (df ! i), dtype = col_dtype (df ! i),
            percentage_unique = percentage (nunique (col_values (df ! i))) (nrows df),
            percentage_missing = percentage (null_count (col_values (df ! i))) (nrows df)\<rparr>"
  using assms by (simp add: get_df_info_def)

lemma map_of_filter_key:
  assumes "distinct (map k xs)" and "r \<in> set xs"
  shows "map_of (map (\<lambda>x. (k x, v x)) (filter P xs)) (k r) = (if P r then Some (v r) else None)"
  using assms
proof (induction xs)
  case Nil
  then show ?case by simp
next
  case (Cons x xs)
  show ?case
  proof (cases "r = x")
    case True
    from Cons.prems(1) have "k x \<notin> k ` set xs" by simp
    then have "k x \<notin> fst ` set (map (\<lambda>x. (k x, v x)) (filter P xs))"
      by (auto simp: image_iff)
    then have "map_of (map (\<lambda>x. (k x, v x)) (filter P xs)) (k x) = None"
      by (simp add: map_of_eq_None_iff)
    with True show ?thesis by simp
  next
    case False
    with Cons.prems have r: "r \<in> set xs" and d: "distinct (map k xs)" by simp_all
    from Cons.prems(1) r have "k x \<noteq> k r" by (auto simp: image_iff)
    with Cons.IH [OF d r] show ?thesis by simp
  qed
qed


lemma dict_lookup_filter:
  assumes d: "distinct (map k xs)" and r: "r \<in> set xs"
  shows "dict_of (map (\<lambda>x. (k x, v x)) (filter P xs)) (k r) = (if P r then Some (v r) else None)"
proof -
  have "map fst (map (\<lambda>x. (k x, v x)) (filter P xs)) = map k (filter P xs)"
    by (simp add: comp_def)
  moreover have "distinct (map k (filter P xs))"
    using d by (rule distinct_map_filter)
  ultimately have "distinct (map fst (map (\<lambda>x. (k x, v x)) (filter P xs)))"
    by (simp only:)
  then have "dict_of (map (\<lambda>x. (k x, v x)) (filter P xs)) = map_of (map (\<lambda>x. (k x, v x)) (filter P xs))"
    by (rule dict_of_distinct)
  with map_of_filter_key [OF d r, of v P] show ?thesis by simp
qed






section \<open>Applying a missing-values plan\<close>



lemma api_missing_plan_append:
  "api_missing_plan st cols (p @ q) s =
     (case api_missing_plan st cols p s of Inl e \<Rightarrow> Inl e | Inr s' \<Rightarrow> api_missing_plan st cols q s')"
proof (induction p arbitrary: s)
  case Nil
  then show ?case by simp
next
  case (Cons x p)
  obtain a ids where x: "x = (a, ids)" by (cases x)
  show ?case
    by (simp add: x Cons.IH split: sum.splits)
qed






lemma api_missing_apply_abc:
  "api_missing_apply example_stats df_abc [(''drop_col'', [1]), (''mean'', [2])] =
     Inr ([\<lparr>col_name = ''b'', col_dtype = ''float64'', col_values = [Num 3, Num 2, Num 4]\<rparr>,
           \<lparr>col_name = ''c'', col_dtype = ''float64'', col_values = [NA, Num 5, Num 7]\<rparr>],
          [LogDropCol ''a'', LogFillMean ''b''])"
  by (simp add: api_missing_apply_def df_abc_def columns_def in_range_def api_missing_step_def
    api_missing_fill_def get_col_def is_cat_def drop_cols_def set_col_def example_stats_def
    mean_cells_def nums_of_def fillna_def isnull_def)

lemma api_missing_ids_append:
  "api_missing_ids st cols action (ids @ ids') s =
     (case api_missing_ids st cols action ids s of
        Inl e \<Rightarrow> Inl e
      | Inr s' \<Rightarrow> api_missing_ids st cols action ids' s')"
  by (induction ids arbitrary: s) (simp_all split: sum.splits)

text \<open>
  C9. In \<open>api_missing_apply\<close> every id is resolved against the column names taken
  before the loop: whatever the earlier entries and the earlier ids of the same entry did
  (a \<open>drop_col\<close> included), an id \<open>cid\<close> in range works on the column that was at
  position \<open>cid\<close> of the initial dataframe. On the columns a, b, c, dropping id 1 and
  then filling id 2 with the mean fills b, the second column of the initial order, and
  leaves c alone.
\<close>

theorem ids_resolved_against_initial_columns:
  "api_missing_apply st df (p @ [(action, ids @ [cid])]) =
     (case api_missing_apply st df (p @ [(action, ids)]) of
        Inl e \<Rightarrow> Inl e
      | Inr s \<Rightarrow>
          if in_range cid (columns df) then api_missing_step st action (columns df ! nat (cid - 1)) s
          else Inr s)
   \<and> api_missing_apply example_stats df_abc [(''drop_col'', [1]), (''mean'', [2])] =
       Inr ([\<lparr>col_name = ''b'', col_dtype = ''float64'', col_values = [Num 3, Num 2, Num 4]\<rparr>,
             \<lparr>col_name = ''c'', col_dtype = ''float64'', col_values = [NA, Num 5, Num 7]\<rparr>],
            [LogDropCol ''a'', LogFillMean ''b''])"
proof -
  have last: "api_missing_ids st (columns df) action [cid] s =
          (if in_range cid (columns df) then api_missing_step st action (columns df ! nat (cid - 1)) s
           else Inr s)" for s
    by (simp split: sum.splits)
  have "api_missing_plan st (columns df) [(action, ids @ [cid])] s =
          (case api_missing_plan st (columns df) [(action, ids)] s of
             Inl e \<Rightarrow> Inl e
           | Inr s' \<Rightarrow>
               if in_range cid (columns df) then api_missing_step st action (columns df ! nat (cid - 1)) s'
               else Inr s')" for s
    by (simp add: api_missing_ids_append last split: sum.splits)
  then have "api_missing_plan st (columns df) (p @ [(action, ids @ [cid])]) s =
          (case api_missing_plan st (columns df) (p @ [(action, ids)]) s of
             Inl e \<Rightarrow> Inl e
           | Inr s' \<Rightarrow>
               if in_range cid (columns df) then api_missing_step st action (columns df ! nat (cid - 1)) s'
               else Inr s')" for s
    by (simp add: api_missing_plan_append split: sum.splits)
  then show ?thesis
    using api_missing_apply_abc by (simp add: api_missing_apply_def)
qed

lemma assigned_setdefault_add:
  "assigned (setdefault_add act c p) a cid \<longleftrightarrow> assigned p a cid \<or> (a = act \<and> cid = c)"
  by (induction act c p rule: setdefault_add.induct) (auto simp: assigned_def split: if_splits)

lemma assigned_fold:
  "assigned (fold (\<lambda>cid p. setdefault_add (f cid) cid p) xs p0) a cid
     \<longleftrightarrow> assigned p0 a cid \<or> (cid \<in> set xs \<and> a = f cid)"
  by (induction xs arbitrary: p0) (auto simp: assigned_setdefault_add)

lemma assigned_temp_plan:
  "assigned (temp_plan gs unc) a cid
     \<longleftrightarrow> cid \<in> set unc \<and> a = (case gs cid of None \<Rightarrow> ''median'' | Some act \<Rightarrow> act)"
  unfolding temp_plan_def
  using assigned_fold [of "\<lambda>cid. case gs cid of None \<Rightarrow> ''median'' | Some act \<Rightarrow> act" unc "[]" a cid]
  by (simp add: assigned_def)

lemma set_covered_ids: "cid \<in> set (covered_ids p) \<longleftrightarrow> (\<exists>a. assigned p a cid)"
proof
  assume "cid \<in> set (covered_ids p)"
  then obtain x where "x \<in> set p" "cid \<in> set (snd x)"
    by (auto simp: covered_ids_def)
  then have "assigned p (fst x) cid"
    by (auto simp: assigned_def list_ex_iff case_prod_unfold)
  then show "\<exists>a. assigned p a cid" ..
next
  assume "\<exists>a. assigned p a cid"
  then show "cid \<in> set (covered_ids p)"
    by (force simp: covered_ids_def assigned_def list_ex_iff)
qed

lemma set_uncovered_ids:
  "set (uncovered_ids all_ids p) = set all_ids - (\<Union>(a, ids) \<in> set p. set ids)"
  by (auto simp: uncovered_ids_def covered_ids_def)

lemma assigned_append: "assigned (p @ q) a cid \<longleftrightarrow> assigned p a cid \<or> assigned q a cid"
  by (auto simp: assigned_def)

lemma uncovered_after_suggestions:
  "uncovered_ids all_ids (p @ temp_plan gs (uncovered_ids all_ids p)) = []"
proof -
  have "cid \<in> set (covered_ids (p @ temp_plan gs (uncovered_ids all_ids p)))"
    if "cid \<in> set all_ids" for cid
  proof (cases "cid \<in> set (covered_ids p)")
    case True
    then show ?thesis by (auto simp: set_covered_ids assigned_append)
  next
    case False
    with that have "cid \<in> set (uncovered_ids all_ids p)"
      by (simp add: uncovered_ids_def)
    then have "assigned (temp_plan gs (uncovered_ids all_ids p))
                 (case gs cid of None \<Rightarrow> ''median'' | Some act \<Rightarrow> act) cid"
      by (simp add: assigned_temp_plan)
    then show ?thesis
      unfolding set_covered_ids assigned_append by blast
  qed
  then show ?thesis
    unfolding uncovered_ids_def [of all_ids "p @ _"] by (simp add: filter_empty_conv)
qed

lemma temp_plan_within_target:
  "map (\<lambda>(a, ids). (a, filter (\<lambda>cid. cid \<in> set unc) ids)) (temp_plan gs unc) = temp_plan gs unc"
proof -
  have "filter (\<lambda>cid. cid \<in> set unc) ids = ids" if "(a, ids) \<in> set (temp_plan gs unc)" for a ids
  proof -
    have "cid \<in> set unc" if "cid \<in> set ids" for cid
    proof -
      from \<open>(a, ids) \<in> set (temp_plan gs unc)\<close> that have "assigned (temp_plan gs unc) a cid"
        by (force simp: assigned_def list_ex_iff)
      then show ?thesis by (simp add: assigned_temp_plan)
    qed
    then show ?thesis by (simp add: filter_id_conv)
  qed
  then have "map (\<lambda>(a, ids). (a, filter (\<lambda>cid. cid \<in> set unc) ids)) (temp_plan gs unc)
      = map (\<lambda>x. x) (temp_plan gs unc)"
    by (intro map_cong) auto
  then show ?thesis by simp
qed

text \<open>
  C2. \<open>uncovered_ids\<close> is the set of eligible ids minus the union of the id sets of
  the plan; with the eligible ids 1, 2, 3 and a plan covering 1 it is 2, 3. Under
  "apply suggestions" the plan built for the uncovered ids lists an id under an action
  exactly when the id is uncovered and the action is its suggestion (\<open>median\<close> when
  it has none); the filter of \<open>apply_actions\<close> on the uncovered ids removes nothing
  from it; and together with the caller's plan it leaves no eligible id uncovered.
\<close>

theorem uncovered_ids_resolved:
  "set (uncovered_ids all_ids user_plan) = set all_ids - (\<Union>(a, ids) \<in> set user_plan. set ids)
   \<and> uncovered_ids [1, 2, 3] [(''mean'', [1])] = [2, 3]
   \<and> (list_ex (\<lambda>(a, ids). a = act \<and> cid \<in> set ids)
         (temp_plan global_suggestion (uncovered_ids all_ids user_plan))
       \<longleftrightarrow> cid \<in> set (uncovered_ids all_ids user_plan)
            \<and> act = (case global_suggestion cid of None \<Rightarrow> ''median'' | Some a \<Rightarrow> a))
   \<and> map (\<lambda>(a, ids). (a, filter (\<lambda>cid. cid \<in> set (uncovered_ids all_ids user_plan)) ids))
         (temp_plan global_suggestion (uncovered_ids all_ids user_plan))
       = temp_plan global_suggestion (uncovered_ids all_ids user_plan)
   \<and> uncovered_ids all_ids
        (user_plan @ temp_plan global_suggestion (uncovered_ids all_ids user_plan)) = []"
proof -
  have ex: "uncovered_ids [1, 2, 3] [(''mean'', [1])] = [2, 3]"
    by (simp add: uncovered_ids_def covered_ids_def)
  from set_uncovered_ids [of all_ids user_plan] ex
    assigned_temp_plan [of global_suggestion "uncovered_ids all_ids user_plan" act cid]
    temp_plan_within_target [of "uncovered_ids all_ids user_plan" global_suggestion]
    uncovered_after_suggestions [of all_ids user_plan global_suggestion]
  show ?thesis
    unfolding assigned_def by (intro conjI)
qed

text \<open>
  C7, as amended. For a mean or median on a categorical column, \<open>api_missing_apply\<close>
  always tries \<open>pd.to_numeric\<close> on the whole column first, while \<open>apply_actions\<close>
  tries it only when the user answers \<open>y\<close> to the prompt, any other answer skipping the
  column. When the conversion fails the dataframe, the info table and the log are left
  as they were and the loop goes on with the remaining ids; when it succeeds the fill
  runs on the converted column.
\<close>

theorem coercion_failure_skips_column:
  assumes act: "action = ''mean'' \<or> action = ''median''"
  shows
    "(in_range cid cols \<longrightarrow> get_col (cols ! nat (cid - 1)) df = Some c \<longrightarrow> is_cat (col_dtype c) \<longrightarrow>
        api_missing_ids st cols action (cid # ids) (df, logs) =
          (case to_numeric_fn st (col_values c) of
             None \<Rightarrow> api_missing_ids st cols action ids (df, logs)
           | Some (d, vs) \<Rightarrow>
               (case api_missing_fill st action (cols ! nat (cid - 1))
                       (set_col (cols ! nat (cid - 1)) d vs df, logs @ [LogToNumeric (cols ! nat (cid - 1))]) of
                  Inl e \<Rightarrow> Inl e
                | Inr s' \<Rightarrow> api_missing_ids st cols action ids s')))
     \<and> (find (\<lambda>r. col_id r = cid) (current_info s) = Some row \<longrightarrow> is_categorical (dtype row) \<longrightarrow>
          stdin s = answer # pending \<longrightarrow> get_col (column_name row) (current_df s) = Some c' \<longrightarrow>
          cli_apply_ids st action (cid # ids) s =
            (if lower (strip answer) = ''y'' then
               (case to_numeric_fn st (col_values c') of
                  None \<Rightarrow> cli_apply_ids st action ids (s\<lparr>stdin := pending\<rparr>)
                | Some (d, vs) \<Rightarrow>
                    (case cli_fill st action (column_name row) cid
                            (s\<lparr>current_df := set_col (column_name row) d vs (current_df s),
                               current_info :=
                                 map (\<lambda>r. if column_name r = column_name row then r\<lparr>dtype := d\<rparr> else r)
                                   (current_info s),
                               log_code := log_code s @ [LogToNumeric (column_name row)],
                               stdin := pending\<rparr>) of
                       Inl e \<Rightarrow> Inl e
                     | Inr s' \<Rightarrow> cli_apply_ids st action ids s'))
             else cli_apply_ids st action ids (s\<lparr>stdin := pending\<rparr>)))"
proof (intro conjI impI)
  assume "in_range cid cols" "get_col (cols ! nat (cid - 1)) df = Some c" "is_cat (col_dtype c)"
  with act show "api_missing_ids st cols action (cid # ids) (df, logs) =
          (case to_numeric_fn st (col_values c) of
             None \<Rightarrow> api_missing_ids st cols action ids (df, logs)
           | Some (d, vs) \<Rightarrow>
               (case api_missing_fill st action (cols ! nat (cid - 1))
                       (set_col (cols ! nat (cid - 1)) d vs df, logs @ [LogToNumeric (cols ! nat (cid - 1))]) of
                  Inl e \<Rightarrow> Inl e
                | Inr s' \<Rightarrow> api_missing_ids st cols action ids s'))"
    by (auto simp: api_missing_step_def split: option.splits)
next
  assume "find (\<lambda>r. col_id r = cid) (current_info s) = Some row" "is_categorical (dtype row)"
    "stdin s = answer # pending" "get_col (column_name row) (current_df s) = Some c'"
  with act show "cli_apply_ids st action (cid # ids) s =
            (if lower (strip answer) = ''y'' then
               (case to_numeric_fn st (col_values c') of
                  None \<Rightarrow> cli_apply_ids st action ids (s\<lparr>stdin := pending\<rparr>)
                | Some (d, vs) \<Rightarrow>
                    (case cli_fill st action (column_name row) cid
                            (s\<lparr>current_df := set_col (column_name row) d vs (current_df s),
                               current_info :=
                                 map (\<lambda>r. if column_name r = column_name row then r\<lparr>dtype := d\<rparr> else r)
                                   (current_info s),
                               log_code := log_code s @ [LogToNumeric (column_name row)],
                               stdin := pending\<rparr>) of
                       Inl e \<Rightarrow> Inl e
                     | Inr s' \<Rightarrow> cli_apply_ids st action ids s'))
             else cli_apply_ids st action ids (s\<lparr>stdin := pending\<rparr>))"
    by (auto simp: cli_apply_one_def split: option.splits)
qed

lemmas run_defs = api_missing_step_def api_missing_fill_def cli_apply_one_def cli_fill_def
  get_col_def set_col_def drop_cols_def columns_def in_range_def is_cat_def is_categorical_def isinstance_CategoricalDtype_def
  is_object_dtype_def example_stats_def mean_cells_def nums_of_def fillna_def fillna_cell_def
  isnull_def to_numeric_cells_def parse_cell_def strip_def lower_def is_space_def

lemmas info_defs = get_df_info_def percentage_def nrows_def null_count_def nunique_def dropna_def
  isnull_def round2_def round_half_even_def upto.simps

lemma get_df_info_text:
  "get_df_info df_text =
     [\<lparr>col_id = 1, column_name = ''t'', dtype = ''object'',
       percentage_unique = Some (6667 / 100), percentage_missing = Some (3333 / 100)\<rparr>,
      \<lparr>col_id = 2, column_name = ''u'', dtype = ''float64'',
       percentage_unique = Some (6667 / 100), percentage_missing = Some (3333 / 100)\<rparr>]"
  by (simp add: df_text_def info_defs)

text \<open>
  The theorem at a column of texts that do not convert (HTTP path, and interactive path
  with the answer \<open>Y\<close>): the column is untouched and the next id is still filled.
\<close>

theorem coercion_failure_skips_column_witness:
  "(''mean'' = ''mean'' \<or> ''mean'' = ''median'')
   \<and> in_range 1 (columns df_text) \<and> get_col (columns df_text ! nat (1 - 1)) df_text = Some (df_text ! 0)
   \<and> is_cat (col_dtype (df_text ! 0))
   \<and> to_numeric_fn example_stats (col_values (df_text ! 0)) = None
   \<and> api_missing_ids example_stats (columns df_text) ''mean'' [1, 2] (df_text, []) =
       Inr ([df_text ! 0, \<lparr>col_name = ''u'', col_dtype = ''float64'', col_values = [Num 3, Num 2, Num 4]\<rparr>],
            [LogFillMean ''u''])
   \<and> find (\<lambda>r. col_id r = 1) (get_df_info df_text) = Some (get_df_info df_text ! 0)
   \<and> is_categorical (dtype (get_df_info df_text ! 0))
   \<and> lower (strip '' Y '') = ''y''
   \<and> cli_apply_ids example_stats ''mean'' [1, 2]
        \<lparr>current_df = df_text, current_info = get_df_info df_text, log_code = [], stdin = ['' Y '']\<rparr> =
       Inr \<lparr>current_df =
              [df_text ! 0, \<lparr>col_name = ''u'', col_dtype = ''float64'', col_values = [Num 3, Num 2, Num 4]\<rparr>],
            current_info = get_df_info df_text, log_code = [LogFillMean ''u''], stdin = []\<rparr>"
proof -
  let ?s = "\<lparr>current_df = df_text, current_info = get_df_info df_text, log_code = [], stdin = ['' Y '']\<rparr>"
  have a: "''mean'' = ''mean'' \<or> ''mean'' = ''median''" by simp
  have h1: "in_range 1 (columns df_text)" by (simp add: df_text_def run_defs)
  have h2: "get_col (columns df_text ! nat (1 - 1)) df_text = Some (df_text ! 0)"
    by (simp add: df_text_def run_defs)
  have h3: "is_cat (col_dtype (df_text ! 0))" by (simp add: df_text_def run_defs)
  have h4: "to_numeric_fn example_stats (col_values (df_text ! 0)) = None"
    by (simp add: df_text_def run_defs)
  have k1: "find (\<lambda>r. col_id r = 1) (current_info ?s) = Some (get_df_info df_text ! 0)"
    by (simp add: get_df_info_text)
  have k2: "is_categorical (dtype (get_df_info df_text ! 0))"
    by (simp add: get_df_info_text run_defs)
  have k3: "stdin ?s = '' Y '' # []" by simp
  have k4: "get_col (column_name (get_df_info df_text ! 0)) (current_df ?s) = Some (df_text ! 0)"
    by (simp add: get_df_info_text) (simp add: df_text_def run_defs)
  have y: "lower (strip '' Y '') = ''y''" by (simp add: run_defs)
  have rest_api: "api_missing_ids example_stats (columns df_text) ''mean'' [2] (df_text, []) =
       Inr ([df_text ! 0, \<lparr>col_name = ''u'', col_dtype = ''float64'', col_values = [Num 3, Num 2, Num 4]\<rparr>],
            [LogFillMean ''u''])"
    by (simp add: df_text_def run_defs)
  have rest_cli: "cli_apply_ids example_stats ''mean'' [2] (?s\<lparr>stdin := []\<rparr>) =
       Inr \<lparr>current_df =
              [df_text ! 0, \<lparr>col_name = ''u'', col_dtype = ''float64'', col_values = [Num 3, Num 2, Num 4]\<rparr>],
            current_info = get_df_info df_text, log_code = [LogFillMean ''u''], stdin = []\<rparr>"
    by (simp add: get_df_info_text cli_apply_one_def is_categorical_def is_object_dtype_def isinstance_CategoricalDtype_def)
       (simp add: df_text_def run_defs)
  from coercion_failure_skips_column [OF a, of 1 "columns df_text" df_text "df_text ! 0" example_stats
      "[2]" "[]" ?s "get_df_info df_text ! 0" "'' Y ''" "[]" "df_text ! 0"]
  have "api_missing_ids example_stats (columns df_text) ''mean'' [1, 2] (df_text, []) =
          api_missing_ids example_stats (columns df_text) ''mean'' [2] (df_text, [])"
    and "cli_apply_ids example_stats ''mean'' [1, 2] ?s =
          cli_apply_ids example_stats ''mean'' [2] (?s\<lparr>stdin := []\<rparr>)"
    using h1 h2 h3 h4 k1 k2 k3 k4 y by simp_all
  with a h1 h2 h3 h4 k1 k2 y rest_api rest_cli show ?thesis
    by simp
qed

text \<open>
  C7 as stated fails in the interactive flow: with the answer \<open>n\<close> no coercion is
  attempted. The column of digit texts below would convert, yet it is left as text with
  its missing value, and nothing is logged.
\<close>

theorem coercion_not_attempted_counterexample:
  "to_numeric_fn example_stats (col_values (df_digits ! 0)) = Some (''float64'', [Num 1, NA, Num 3])
   \<and> is_categorical (dtype (get_df_info df_digits ! 0))
   \<and> cli_apply_ids example_stats ''mean'' [1]
        \<lparr>current_df = df_digits, current_info = get_df_info df_digits, log_code = [], stdin = [''n'']\<rparr> =
       Inr \<lparr>current_df = df_digits, current_info = get_df_info df_digits, log_code = [], stdin = []\<rparr>"
  by (simp add: df_digits_def run_defs info_defs)

lemma cli_fill_undefined:
  assumes "get_col name (current_df s) = Some c"
    and "action = ''mean'' \<and> mean_fn st (col_values c) = None
         \<or> action = ''median'' \<and> median_fn st (col_values c) = None
         \<or> action = ''mode'' \<and> mode_fn st (col_values c) = []"
  shows "cli_fill st action name cid s = Inr s"
  using assms(2)
proof (elim disjE conjE)
  assume "action = ''mean''" "mean_fn st (col_values c) = None"
  with assms(1) show ?thesis by (simp add: cli_fill_def)
next
  assume "action = ''median''" "median_fn st (col_values c) = None"
  with assms(1) show ?thesis by (simp add: cli_fill_def)
next
  assume "action = ''mode''" "mode_fn st (col_values c) = []"
  with assms(1) show ?thesis by (simp add: cli_fill_def)
qed

text \<open>
  C10. In \<open>apply_actions\<close>, a mean or median that is NaN and an empty mode fill nothing:
  the guarded fill returns the state unchanged without raising, and for a column that
  needs no conversion prompt the loop goes on with the remaining ids from that same
  state.
\<close>

theorem undefined_statistic_fill_skipped:
  assumes col: "get_col name (current_df s) = Some c"
    and undefined: "action = ''mean'' \<and> mean_fn st (col_values c) = None
         \<or> action = ''median'' \<and> median_fn st (col_values c) = None
         \<or> action = ''mode'' \<and> mode_fn st (col_values c) = []"
  shows "cli_fill st action name cid s = Inr s
    \<and> (find (\<lambda>r. col_id r = cid) (current_info s) = Some row \<longrightarrow> column_name row = name \<longrightarrow>
         action = ''mode'' \<or> \<not> is_categorical (dtype row) \<longrightarrow>
         cli_apply_ids st action (cid # ids) s = cli_apply_ids st action ids s
         \<and> apply_actions st ((action, cid # ids) # rest) (cid # targets) s
             = apply_actions st ((action, ids) # rest) (cid # targets) s)"
proof -
  have fill: "cli_fill st action name cid s = Inr s"
    using col undefined by (rule cli_fill_undefined)
  have one: "cli_apply_one st action cid s = Inr s"
    if "find (\<lambda>r. col_id r = cid) (current_info s) = Some row" "column_name row = name"
      "action = ''mode'' \<or> \<not> is_categorical (dtype row)"
  proof -
    from that have "cli_apply_one st action cid s = cli_fill st action name cid s"
      by (auto simp: cli_apply_one_def)
    with fill show ?thesis by simp
  qed
  have "cli_apply_ids st action (cid # ids) s = cli_apply_ids st action ids s
         \<and> apply_actions st ((action, cid # ids) # rest) (cid # targets) s
             = apply_actions st ((action, ids) # rest) (cid # targets) s"
    if "find (\<lambda>r. col_id r = cid) (current_info s) = Some row" "column_name row = name"
      "action = ''mode'' \<or> \<not> is_categorical (dtype row)"
    using one [OF that] by simp
  with fill show ?thesis by blast
qed

lemma get_df_info_allna:
  "get_df_info df_allna =
     [\<lparr>col_id = 1, column_name = ''e'', dtype = ''float64'',
       percentage_unique = Some 0, percentage_missing = Some 100\<rparr>,
      \<lparr>col_id = 2, column_name = ''f'', dtype = ''float64'',
       percentage_unique = Some 50, percentage_missing = Some 50\<rparr>]"
  by (simp add: df_allna_def info_defs)

text \<open>
  The theorem at a column whose values are all missing: its mean is NaN, the column stays
  as it is, and the next column is filled.
\<close>

theorem undefined_statistic_fill_skipped_witness:
  "get_col ''e'' df_allna = Some (df_allna ! 0)
   \<and> mean_fn example_stats (col_values (df_allna ! 0)) = None
   \<and> find (\<lambda>r. col_id r = 1) (get_df_info df_allna) = Some (get_df_info df_allna ! 0)
   \<and> column_name (get_df_info df_allna ! 0) = ''e''
   \<and> \<not> is_categorical (dtype (get_df_info df_allna ! 0))
   \<and> cli_fill example_stats ''mean'' ''e'' 1
        \<lparr>current_df = df_allna, current_info = get_df_info df_allna, log_code = [], stdin = []\<rparr>
       = Inr \<lparr>current_df = df_allna, current_info = get_df_info df_allna, log_code = [], stdin = []\<rparr>
   \<and> cli_apply_ids example_stats ''mean'' [1, 2]
        \<lparr>current_df = df_allna, current_info = get_df_info df_allna, log_code = [], stdin = []\<rparr>
       = Inr \<lparr>current_df =
                [df_allna ! 0, \<lparr>col_name = ''f'', col_dtype = ''float64'', col_values = [Num 4, Num 4]\<rparr>],
              current_info = get_df_info df_allna, log_code = [LogFillMean ''f''], stdin = []\<rparr>"
proof -
  let ?s = "\<lparr>current_df = df_allna, current_info = get_df_info df_allna, log_code = [], stdin = []\<rparr>"
  have h1: "get_col ''e'' (current_df ?s) = Some (df_allna ! 0)"
    by (simp add: df_allna_def run_defs)
  have h2: "mean_fn example_stats (col_values (df_allna ! 0)) = None"
    by (simp add: df_allna_def run_defs)
  then have h2': "''mean'' = ''mean'' \<and> mean_fn example_stats (col_values (df_allna ! 0)) = None
         \<or> ''mean'' = ''median'' \<and> median_fn example_stats (col_values (df_allna ! 0)) = None
         \<or> ''mean'' = ''mode'' \<and> mode_fn example_stats (col_values (df_allna ! 0)) = []"
    by simp
  have k1: "find (\<lambda>r. col_id r = 1) (current_info ?s) = Some (get_df_info df_allna ! 0)"
    by (simp add: get_df_info_allna)
  have k2: "column_name (get_df_info df_allna ! 0) = ''e''"
    by (simp add: get_df_info_allna)
  have k3: "\<not> is_categorical (dtype (get_df_info df_allna ! 0))"
    by (simp add: get_df_info_allna is_categorical_def is_object_dtype_def isinstance_CategoricalDtype_def)
  have rest: "cli_apply_ids example_stats ''mean'' [2] ?s
       = Inr \<lparr>current_df =
                [df_allna ! 0, \<lparr>col_name = ''f'', col_dtype = ''float64'', col_values = [Num 4, Num 4]\<rparr>],
              current_info = get_df_info df_allna, log_code = [LogFillMean ''f''], stdin = []\<rparr>"
    by (simp add: get_df_info_allna cli_apply_one_def is_categorical_def is_object_dtype_def isinstance_CategoricalDtype_def)
       (simp add: df_allna_def run_defs)
  from undefined_statistic_fill_skipped [OF h1 h2', of 1 "get_df_info df_allna ! 0" "[2]" "[]" "[]"]
    h1 h2 k1 k2 k3 rest
  show ?thesis by simp
qed

section \<open>Outlier suggestions\<close>



















section \<open>Capping outliers\<close>








section \<open>Correlation suggestions\<close>

lemma upper_entry:
  assumes "i < length nums" "j < length nums"
  shows "upper_triangle (corr_matrix st nums) ! i ! j =
           (if i < j then map_option abs (corr_fn st (col_values (nums ! i)) (col_values (nums ! j)))
            else None)"
  using assms by (simp add: upper_triangle_def corr_matrix_def)

lemma upper_column_exceeds:
  assumes j: "j < length nums"
  shows "list_ex (\<lambda>v. fgt v (Some t)) (upper_column (upper_triangle (corr_matrix st nums)) j)
           \<longleftrightarrow> (\<exists>i<j. fgt (map_option abs (corr_fn st (col_values (nums ! i)) (col_values (nums ! j))))
                          (Some t))"
proof -
  let ?u = "upper_triangle (corr_matrix st nums)"
  have len: "length ?u = length nums"
    by (simp add: upper_triangle_def corr_matrix_def)
  have "list_ex (\<lambda>v. fgt v (Some t)) (upper_column ?u j)
          \<longleftrightarrow> (\<exists>i<length nums. fgt (?u ! i ! j) (Some t))"
  proof -
    have "list_ex (\<lambda>v. fgt v (Some t)) (upper_column ?u j)
            \<longleftrightarrow> (\<exists>i<length ?u. fgt (?u ! i ! j) (Some t))"
      unfolding upper_column_def list_ex_iff by (force simp: in_set_conv_nth)
    then show ?thesis by (simp only: len)
  qed
  also have "\<dots> \<longleftrightarrow> (\<exists>i<j. fgt (map_option abs (corr_fn st (col_values (nums ! i)) (col_values (nums ! j))))
                          (Some t))"
  proof
    assume "\<exists>i<length nums. fgt (?u ! i ! j) (Some t)"
    then obtain i where i: "i < length nums" "fgt (?u ! i ! j) (Some t)" by blast
    then have "i < j"
      using upper_entry [OF i(1) j, of st] by (auto simp: fgt_def split: if_splits)
    with i upper_entry [OF i(1) j, of st] show "\<exists>i<j. fgt (map_option abs (corr_fn st (col_values (nums ! i)) (col_values (nums ! j))))
                          (Some t)"
      by auto
  next
    assume "\<exists>i<j. fgt (map_option abs (corr_fn st (col_values (nums ! i)) (col_values (nums ! j)))) (Some t)"
    then obtain i where i: "i < j" "fgt (map_option abs (corr_fn st (col_values (nums ! i)) (col_values (nums ! j)))) (Some t)"
      by blast
    with j have il: "i < length nums" by simp
    from upper_entry [OF il j, of st] i have "fgt (?u ! i ! j) (Some t)" by simp
    with il show "\<exists>i<length nums. fgt (?u ! i ! j) (Some t)" by blast
  qed
  finally show ?thesis .
qed

lemma flagged_iff:
  assumes dn: "distinct (map col_name nums)" and j: "j < length nums"
  shows "col_name (nums ! j) \<in> set (map (\<lambda>(k, c). col_name c) (filter (\<lambda>(k, c). P k) (zip [0..<length nums] nums)))
           \<longleftrightarrow> P j"
proof
  assume "col_name (nums ! j) \<in> set (map (\<lambda>(k, c). col_name c) (filter (\<lambda>(k, c). P k) (zip [0..<length nums] nums)))"
  then obtain k c where kc: "(k, c) \<in> set (zip [0..<length nums] nums)" "P k" "col_name c = col_name (nums ! j)"
    by auto
  then have "k < length nums" "c = nums ! k"
    by (auto simp: set_zip)
  with kc(3) dn j have "k = j"
    by (metis length_map nth_eq_iff_index_eq nth_map)
  with kc(2) show "P j" by simp
next
  assume "P j"
  moreover have "(j, nums ! j) \<in> set (zip [0..<length nums] nums)"
    using j by (auto simp: set_zip intro!: exI [of _ j])
  ultimately show "col_name (nums ! j) \<in> set (map (\<lambda>(k, c). col_name c) (filter (\<lambda>(k, c). P k) (zip [0..<length nums] nums)))"
    by force
qed

lemma distinct_numeric_cols:
  "distinct (columns df) \<Longrightarrow> distinct (map col_name (numeric_cols df))"
  unfolding columns_def numeric_cols_def by (rule distinct_map_filter)

lemma high_corr_cols_iff:
  assumes dn: "distinct (columns df)" and j: "j < length (numeric_cols df)"
  shows "col_name (numeric_cols df ! j) \<in> set (high_corr_cols st t df)
           \<longleftrightarrow> (\<exists>i<j. fgt (map_option abs (corr_fn st (col_values (numeric_cols df ! i))
                                               (col_values (numeric_cols df ! j)))) (Some t))"
proof -
  let ?nums = "numeric_cols df"
  let ?P = "\<lambda>k. list_ex (\<lambda>v. fgt v (Some t)) (upper_column (upper_triangle (corr_matrix st ?nums)) k)"
  have "col_name (?nums ! j) \<in> set (high_corr_cols st t df) \<longleftrightarrow> ?P j"
    unfolding high_corr_cols_def Let_def
    using flagged_iff [OF distinct_numeric_cols [OF dn] j, of ?P] by simp
  with upper_column_exceeds [OF j, of t st] show ?thesis by simp
qed

lemma correlation_suggestion_lookup:
  assumes k: "k < length df" and two: "2 \<le> length (numeric_cols df)"
  shows "correlation_suggestion st t df (get_df_info df) (int k + 1) =
           (if col_name (df ! k) \<in> set (high_corr_cols st t df) then Some ''drop'' else None)"
proof -
  have rin: "get_df_info df ! k \<in> set (get_df_info df)"
    using k by (simp add: get_df_info_length)
  have rid: "col_id (get_df_info df ! k) = int k + 1" "column_name (get_df_info df ! k) = col_name (df ! k)"
    using k by (simp_all add: get_df_info_nth)
  from dict_lookup_filter [OF get_df_info_distinct_ids rin, of "\<lambda>row. ''drop''"
      "\<lambda>row. column_name row \<in> set (high_corr_cols st t df)"] two rid
  show ?thesis by (simp add: correlation_suggestion_def)
qed

text \<open>
  C1, as amended. With the numeric columns in column order, a column is flagged (it is in
  \<open>high_corr_cols\<close>, and its id is suggested \<open>drop\<close>) exactly when its absolute
  correlation with some numeric column before it exceeds the threshold: of a pair above
  the threshold the later member is flagged, the earlier one only if it is itself the
  later member of another such pair. Every flagged column is suggested \<open>drop\<close>, and
  no other.
\<close>

theorem later_member_of_pair_flagged:
  assumes dn: "distinct (columns df)" and two: "2 \<le> length (numeric_cols df)"
    and j: "j < length (numeric_cols df)" and k: "k < length df"
  shows "(col_name (numeric_cols df ! j) \<in> set (high_corr_cols st t df)
           \<longleftrightarrow> (\<exists>i<j. fgt (map_option abs (corr_fn st (col_values (numeric_cols df ! i))
                                               (col_values (numeric_cols df ! j)))) (Some t)))
         \<and> api_corr_detect st t df = Some (high_corr_cols st t df)
         \<and> correlation_suggestion st t df (get_df_info df) (int k + 1) =
             (if col_name (df ! k) \<in> set (high_corr_cols st t df) then Some ''drop'' else None)"
  using high_corr_cols_iff [OF dn j, of st t] correlation_suggestion_lookup [OF k two, of st t] two
  by (simp add: api_corr_detect_def)

lemma high_corr_cols_dup: "high_corr_cols example_stats (9 / 10) df_dup = [''b'']"
  by (simp add: high_corr_cols_def numeric_cols_def df_dup_def upper_triangle_def corr_matrix_def
    upper_column_def example_stats_def fgt_def upt_rec [of 0] upt_rec [of 1] upt_rec [of 2])

lemma get_df_info_dup:
  "get_df_info df_dup =
     [\<lparr>col_id = 1, column_name = ''a'', dtype = ''float64'',
       percentage_unique = Some 100, percentage_missing = Some 0\<rparr>,
      \<lparr>col_id = 2, column_name = ''b'', dtype = ''float64'',
       percentage_unique = Some 100, percentage_missing = Some 0\<rparr>]"
  by (simp add: df_dup_def info_defs)

text \<open>
  C1 as stated fails: for two numeric columns a, b that are exact duplicates (correlation
  1, above the threshold 0.90) only b is flagged; a is not in the flagged set and has no
  suggestion.
\<close>

theorem earlier_duplicate_not_flagged_counterexample:
  "fgt (map_option abs (corr_fn example_stats (col_values (df_dup ! 0)) (col_values (df_dup ! 1))))
     (Some (9 / 10))
   \<and> high_corr_cols example_stats (9 / 10) df_dup = [''b'']
   \<and> ''a'' \<notin> set (high_corr_cols example_stats (9 / 10) df_dup)
   \<and> api_corr_detect example_stats (9 / 10) df_dup = Some [''b'']
   \<and> correlation_suggestion example_stats (9 / 10) df_dup (get_df_info df_dup) 1 = None
   \<and> correlation_suggestion example_stats (9 / 10) df_dup (get_df_info df_dup) 2 = Some ''drop''"
proof -
  have c: "fgt (map_option abs (corr_fn example_stats (col_values (df_dup ! 0)) (col_values (df_dup ! 1))))
     (Some (9 / 10))"
    by (simp add: df_dup_def example_stats_def fgt_def)
  have n: "length (numeric_cols df_dup) = 2"
    by (simp add: numeric_cols_def df_dup_def)
  have s: "correlation_suggestion example_stats (9 / 10) df_dup (get_df_info df_dup) 1 = None"
    "correlation_suggestion example_stats (9 / 10) df_dup (get_df_info df_dup) 2 = Some ''drop''"
    by (simp_all add: correlation_suggestion_def n high_corr_cols_dup get_df_info_dup dict_of_def)
  from c s show ?thesis
    by (simp add: high_corr_cols_dup api_corr_detect_def n)
qed

text \<open>
  The theorem at the two duplicate columns: b, the later one, is flagged and suggested
  \<open>drop\<close>.
\<close>

theorem later_member_of_pair_flagged_witness:
  "distinct (columns df_dup) \<and> 2 \<le> length (numeric_cols df_dup)
   \<and> (1::nat) < length (numeric_cols df_dup) \<and> (1::nat) < length df_dup
   \<and> col_name (numeric_cols df_dup ! 1) = ''b''
   \<and> ''b'' \<in> set (high_corr_cols example_stats (9 / 10) df_dup)
   \<and> correlation_suggestion example_stats (9 / 10) df_dup (get_df_info df_dup) 2 = Some ''drop''"
proof -
  have h1: "distinct (columns df_dup)" by (simp add: df_dup_def columns_def)
  have nums: "numeric_cols df_dup = df_dup" by (simp add: numeric_cols_def df_dup_def)
  have h2: "2 \<le> length (numeric_cols df_dup)" by (simp add: nums) (simp add: df_dup_def)
  have h3: "(1::nat) < length (numeric_cols df_dup)" by (simp add: nums) (simp add: df_dup_def)
  have h4: "(1::nat) < length df_dup" by (simp add: df_dup_def)
  have b: "col_name (numeric_cols df_dup ! 1) = ''b''" by (simp add: nums) (simp add: df_dup_def)
  have c: "\<exists>i<1::nat. fgt (map_option abs (corr_fn example_stats (col_values (numeric_cols df_dup ! i))
                                               (col_values (numeric_cols df_dup ! 1)))) (Some (9 / 10))"
    by (simp add: nums) (simp add: df_dup_def example_stats_def fgt_def)
  from later_member_of_pair_flagged [OF h1 h2 h3 h4, of example_stats "9 / 10"] b c
  have "''b'' \<in> set (high_corr_cols example_stats (9 / 10) df_dup)"
    and "correlation_suggestion example_stats (9 / 10) df_dup (get_df_info df_dup) 2 = Some ''drop''"
    by (simp_all add: df_dup_def)
  with h1 h2 h3 h4 b show ?thesis by simp
qed

end
